theory Spec2Isabelle
  imports Complex_Main
begin

section \<open>The ring generator \<open>circle\<close> of \<open>src/frontend/src/App.tsx\<close>\<close>

text \<open>
  JavaScript numbers are modelled as mathematical reals: rounding, \<open>NaN\<close> and the
  infinities of IEEE-754 doubles are not part of this model. A position is the pair
  \<open>[lon, lat]\<close>. An array entry is \<open>Some p\<close> for a position and \<open>None\<close> for the
  value \<open>undefined\<close>, which \<open>coords[0]\<close> yields on an empty array.
\<close>

type_synonym position = "real \<times> real"

record geometry =
  geometry_type :: string
  coordinates :: "position option list list"

record feature =
  feature_type :: string
  geometry :: geometry
  properties :: "(string \<times> string) list"

text \<open>The constant \<open>R\<close> declared inside \<open>circle\<close>.\<close>

definition R :: real where
  "R = 6378137"

text \<open>
  The \<open>for\<close> loop of \<open>circle\<close>: \<open>i\<close> counts up from its start value while
  \<open>i < steps\<close>, and every round pushes one vertex onto \<open>coords\<close>. The parameter
  \<open>steps\<close> is a number, not necessarily a whole one.
\<close>

function circle_loop ::
  "real \<Rightarrow> real \<Rightarrow> real \<Rightarrow> real \<Rightarrow> int \<Rightarrow> position option list \<Rightarrow> position option list"
where
  "circle_loop lon lat radiusMeters steps i coords =
     (if of_int i < steps then
        (let theta = (of_int i / steps) * 2 * pi;
             dx = radiusMeters * cos theta;
             dy = radiusMeters * sin theta;
             dLon = dx / (R * cos (lat * pi / 180)) * 180 / pi;
             dLat = dy / R * 180 / pi
         in circle_loop lon lat radiusMeters steps (i + 1)
              (coords @ [Some (lon + dLon, lat + dLat)]))
      else coords)"
  by pat_completeness auto
termination
  by (relation "measure (\<lambda>(lon, lat, radiusMeters, steps, i, coords). nat (\<lceil>steps\<rceil> - i))")
     (auto simp: less_ceiling_iff)

declare circle_loop.simps [simp del]

text \<open>
  \<open>circle\<close>: run the loop from \<open>i = 0\<close> on the empty array, push \<open>coords[0]\<close>
  and wrap the ring into a GeoJSON polygon feature.
\<close>

definition circle :: "position \<Rightarrow> real \<Rightarrow> real \<Rightarrow> feature" where
  "circle center radiusMeters steps =
     (let lon = fst center;
          lat = snd center;
          coords = circle_loop lon lat radiusMeters steps 0 [];
          coords' = coords @ [case coords of [] \<Rightarrow> None | c # _ \<Rightarrow> c]
      in \<lparr>feature_type = ''Feature'',
          geometry = \<lparr>geometry_type = ''Polygon'', coordinates = [coords']\<rparr>,
          properties = []\<rparr>)"

text \<open>The default value of the parameter \<open>steps\<close>.\<close>

definition default_steps :: real where
  "default_steps = 128"

text \<open>
  The errors of the specification's taxonomy, and the outcome of a call of \<open>circle\<close>
  as a caller sees it. The body of \<open>circle\<close> has no \<open>throw\<close> statement and no
  argument check, so every call returns its feature.
\<close>

datatype error = InvalidArgument

definition circle_call :: "position \<Rightarrow> real \<Rightarrow> real \<Rightarrow> error + feature" where
  "circle_call center radiusMeters steps = Inr (circle center radiusMeters steps)"

text \<open>The single ring of the polygon that \<open>circle\<close> returns.\<close>

definition ring_of :: "feature \<Rightarrow> position option list" where
  "ring_of f = concat (coordinates (geometry f))"

text \<open>
  The vertex that round \<open>i\<close> of the loop pushes: the body of the loop, on its own.
\<close>

definition loop_vertex :: "real \<Rightarrow> real \<Rightarrow> real \<Rightarrow> real \<Rightarrow> int \<Rightarrow> position" where
  "loop_vertex lon lat radiusMeters steps i =
     (let theta = (of_int i / steps) * 2 * pi;
          dx = radiusMeters * cos theta;
          dy = radiusMeters * sin theta;
          dLon = dx / (R * cos (lat * pi / 180)) * 180 / pi;
          dLat = dy / R * 180 / pi
      in (lon + dLon, lat + dLat))"

text \<open>
  The generator's own flat-earth metric: the degree offsets of a point from the center
  are turned back into metres by the inverse of the loop's conversion
  (\<open>dx = dLon \<cdot> \<pi>/180 \<cdot> R \<cdot> cos(lat \<cdot> \<pi>/180)\<close>, \<open>dy = dLat \<cdot> \<pi>/180 \<cdot> R\<close>),
  and the distance is the Euclidean length of \<open>(dx, dy)\<close>.
\<close>

definition flat_earth_distance :: "position \<Rightarrow> position \<Rightarrow> real" where
  "flat_earth_distance center p =
     (let dx = (fst p - fst center) * pi / 180 * (R * cos (snd center * pi / 180));
          dy = (snd p - snd center) * pi / 180 * R
      in sqrt (dx * dx + dy * dy))"

text \<open>
  What a caller can observe as a flag on a call of \<open>circle\<close>: an error instead of a
  feature, or an entry in the \<open>properties\<close> of the returned feature.
\<close>

definition flagged :: "error + feature \<Rightarrow> bool" where
  "flagged outcome = (case outcome of Inl e \<Rightarrow> True | Inr f \<Rightarrow> properties f \<noteq> [])"

section \<open>The state of the component \<open>App\<close>\<close>

text \<open>The type \<open>SimulationResult\<close>; the keys \<open>'1psi'\<close> and \<open>'5psi'\<close> of
  \<open>overpressure_radii_m\<close> are the fields \<open>psi_1\<close> and \<open>psi_5\<close>.\<close>

record lat_lon =
  lat :: real
  lon :: real

record overpressure_radii =
  psi_1 :: real
  psi_5 :: real

record SimulationResult =
  regime :: string
  e_kt :: real
  center :: lat_lon
  overpressure_radii_m :: overpressure_radii

record PhaResult =
  des :: string
  name :: "string option"
  spkid :: string
  diameter :: "real option"
  albedo :: "real option"
  pha :: string

text \<open>The union \<open>'idle' | 'loading' | 'error'\<close> of \<open>simStatus\<close> and \<open>phaStatus\<close>.\<close>

datatype status = Idle | Loading | Error

record sim_params =
  diameter_m :: real
  density_kg_m3 :: real
  velocity_kms :: real
  angle_deg :: real
  composition :: string

text \<open>The argument \<open>{...params, lat: center[1], lon: center[0]}\<close> of \<open>simulate\<close>;
  its fields \<open>lat\<close> and \<open>lon\<close> are \<open>req_lat\<close> and \<open>req_lon\<close> here.\<close>

record simulate_request = sim_params +
  req_lat :: real
  req_lon :: real

record view_state =
  longitude :: real
  latitude :: real
  zoom :: real
  bearing :: real
  pitch :: real

text \<open>One field for every \<open>useState\<close> cell of \<open>App\<close>.\<close>

record app_state =
  center :: position
  sim :: "SimulationResult option"
  simStatus :: status
  simError :: "string option"
  phaStatus :: status
  phaError :: "string option"
  phaResults :: "PhaResult list"
  params :: sim_params
  viewState :: view_state

text \<open>The initial values given to \<open>useState\<close>.\<close>

definition initial_state :: app_state where
  "initial_state =
     \<lparr>center = (77.5946, 12.9716),
      sim = None,
      simStatus = Idle,
      simError = None,
      phaStatus = Idle,
      phaError = None,
      phaResults = [],
      params = \<lparr>diameter_m = 140, density_kg_m3 = 3000, velocity_kms = 19,
                 angle_deg = 30, composition = ''stony''\<rparr>,
      viewState = \<lparr>longitude = 77.5946, latitude = 12.9716, zoom = 8, bearing = 0, pitch = 0\<rparr>\<rparr>"


definition setViewState :: "view_state \<Rightarrow> app_state \<Rightarrow> app_state" where
  "setViewState v st = st\<lparr>viewState := v\<rparr>"

section \<open>The overlay layers\<close>

record feature_collection =
  collection_type :: string
  features :: "feature list"

text \<open>The properties passed to \<open>new GeoJsonLayer\<close>; \<open>id\<close> is \<open>layer_id\<close> here.\<close>

record geojson_layer =
  layer_id :: string
  data :: feature_collection
  filled :: bool
  stroked :: bool
  getLineColor :: "nat list"
  getFillColor :: "nat list"

text \<open>
  The memoised value \<open>layers\<close>: its callback reads the cell \<open>sim\<close> and nothing
  else, and both calls of \<open>circle\<close> leave \<open>steps\<close> at its default.
\<close>

definition layers :: "app_state \<Rightarrow> geojson_layer list" where
  "layers st =
     (case sim st of
        None \<Rightarrow> []
      | Some s \<Rightarrow>
          (let ctr = (lon (SimulationResult.center s), lat (SimulationResult.center s));
               f1 = circle ctr (psi_1 (overpressure_radii_m s)) default_steps;
               f5 = circle ctr (psi_5 (overpressure_radii_m s)) default_steps;
               fc1 = \<lparr>collection_type = ''FeatureCollection'', features = [f1]\<rparr>;
               fc5 = \<lparr>collection_type = ''FeatureCollection'', features = [f5]\<rparr>
           in [\<lparr>layer_id = ''op-1psi'', data = fc1, filled = True, stroked = True,
                 getLineColor = [248, 113, 113, 200], getFillColor = [248, 113, 113, 80]\<rparr>,
               \<lparr>layer_id = ''op-5psi'', data = fc5, filled = True, stroked = True,
                 getLineColor = [251, 146, 60, 200], getFillColor = [251, 146, 60, 80]\<rparr>]))"

text \<open>The rings drawn by a list of layers, layer by layer and feature by feature.\<close>

definition layer_rings :: "geojson_layer list \<Rightarrow> position option list list" where
  "layer_rings ls = concat (map (\<lambda>l. map ring_of (features (data l))) ls)"

section \<open>The two request pipelines\<close>

text \<open>
  A value caught by \<open>catch (error)\<close>: an instance of \<open>Error\<close> with its message, or
  anything else. A promise settles as fulfilled with a value or as rejected with a
  thrown value.
\<close>

datatype thrown = ErrorObject string | NotAnError

datatype 'a settled = Fulfilled 'a | Rejected thrown

text \<open>
  \<open>runSim\<close> up to its \<open>await\<close>: the two setters run, and the call of \<open>simulate\<close>
  is issued with the current \<open>params\<close> and \<open>center\<close>.
\<close>

definition runSim_start :: "app_state \<Rightarrow> app_state \<times> simulate_request" where
  "runSim_start st =
     (st\<lparr>simStatus := Loading, simError := None\<rparr>,
      sim_params.extend (params st) \<lparr>req_lat = snd (center st), req_lon = fst (center st)\<rparr>)"

text \<open>\<open>runSim\<close> after its \<open>await\<close>: the rest of the \<open>try\<close> block when the promise
  is fulfilled, the \<open>catch\<close> block when it is rejected.\<close>

definition runSim_settle :: "SimulationResult settled \<Rightarrow> app_state \<Rightarrow> app_state" where
  "runSim_settle outcome st =
     (case outcome of
        Fulfilled d \<Rightarrow> st\<lparr>sim := Some d, simStatus := Idle\<rparr>
      | Rejected e \<Rightarrow>
          st\<lparr>simStatus := Error,
             simError := Some (case e of ErrorObject m \<Rightarrow> m | NotAnError \<Rightarrow> ''Simulation failed.'')\<rparr>)"

text \<open>One call of \<open>runSim\<close> with nothing else in between: the states the component
  passes through, and the state it ends in.\<close>

definition runSim_states :: "app_state \<Rightarrow> SimulationResult settled \<Rightarrow> app_state list" where
  "runSim_states st outcome =
     [st, fst (runSim_start st), runSim_settle outcome (fst (runSim_start st))]"

definition runSim :: "app_state \<Rightarrow> SimulationResult settled \<Rightarrow> app_state" where
  "runSim st outcome = last (runSim_states st outcome)"

text \<open>The run button is rendered with \<open>disabled={simStatus === 'loading'}\<close>; a click
  on a disabled button does not call \<open>runSim\<close>.\<close>

definition run_disabled :: "app_state \<Rightarrow> bool" where
  "run_disabled st = (simStatus st = Loading)"

definition click_run :: "app_state \<Rightarrow> app_state \<times> simulate_request option" where
  "click_run st =
     (if run_disabled st then (st, None)
      else (fst (runSim_start st), Some (snd (runSim_start st))))"

text \<open>The error line under the button: \<open>simStatus === 'error' && <p>{simError}</p>\<close>.\<close>

definition sim_error_shown :: "app_state \<Rightarrow> string option" where
  "sim_error_shown st = (if simStatus st = Error then simError st else None)"

text \<open>
  The click handler of the refresh button, split at its \<open>await\<close> in the same way; the
  request is \<open>neoSearch(true, 6)\<close>.
\<close>

definition refresh_start :: "app_state \<Rightarrow> app_state \<times> (bool \<times> nat)" where
  "refresh_start st = (st\<lparr>phaStatus := Loading, phaError := None\<rparr>, (True, 6))"

definition refresh_settle :: "PhaResult list settled \<Rightarrow> app_state \<Rightarrow> app_state" where
  "refresh_settle outcome st =
     (case outcome of
        Fulfilled rows \<Rightarrow> st\<lparr>phaResults := rows, phaStatus := Idle\<rparr>
      | Rejected e \<Rightarrow>
          st\<lparr>phaStatus := Error,
             phaError := Some (case e of ErrorObject m \<Rightarrow> m | NotAnError \<Rightarrow> ''Search failed.'')\<rparr>)"

definition refresh :: "app_state \<Rightarrow> PhaResult list settled \<Rightarrow> app_state" where
  "refresh st outcome = refresh_settle outcome (fst (refresh_start st))"

definition pha_error_shown :: "app_state \<Rightarrow> string option" where
  "pha_error_shown st = (if phaStatus st = Error then phaError st else None)"



section \<open>The component as an event loop\<close>







section \<open>Sample values\<close>

text \<open>A result of the backend for the initial entry point, and a state that holds
  it.\<close>

definition result_A :: SimulationResult where
  "result_A = \<lparr>regime = ''airburst'', e_kt = 100,
               SimulationResult.center = \<lparr>lat = 12.9716, lon = 77.5946\<rparr>,
               overpressure_radii_m = \<lparr>psi_1 = 2000, psi_5 = 800\<rparr>\<rparr>"

definition state_with_result :: app_state where
  "state_with_result = initial_state\<lparr>sim := Some result_A\<rparr>"

section \<open>Properties of the ring generator\<close>

text \<open>The loop appends one vertex for every whole \<open>i\<close> from its start value up to,
  and not including, \<open>steps\<close>.\<close>

lemma circle_loop_eq:
  "0 \<le> i \<Longrightarrow>
   circle_loop lo la r steps i coords =
     coords @ map (\<lambda>k. Some (loop_vertex lo la r steps (int k))) [nat i ..< nat \<lceil>steps\<rceil>]"
proof (induction lo la r steps i coords rule: circle_loop.induct)
  case (1 lo la r steps i coords)
  show ?case
  proof (cases "of_int i < steps")
    case True
    then have lt: "i < \<lceil>steps\<rceil>" by (simp add: less_ceiling_iff)
    from lt "1.prems" have "nat i < nat \<lceil>steps\<rceil>" by linarith
    from upt_conv_Cons [OF this] "1.prems"
    have up: "[nat i ..< nat \<lceil>steps\<rceil>] = nat i # [nat (i + 1) ..< nat \<lceil>steps\<rceil>]"
      by (simp add: nat_add_distrib)
    have "circle_loop lo la r steps i coords =
          circle_loop lo la r steps (i + 1) (coords @ [Some (loop_vertex lo la r steps i)])"
      using True by (subst circle_loop.simps) (simp add: loop_vertex_def Let_def)
    also have "\<dots> = (coords @ [Some (loop_vertex lo la r steps i)]) @
        map (\<lambda>k. Some (loop_vertex lo la r steps (int k))) [nat (i + 1) ..< nat \<lceil>steps\<rceil>]"
      using "1.IH" True "1.prems" by (simp add: loop_vertex_def Let_def)
    finally show ?thesis using up "1.prems" by simp
  next
    case False
    then have "\<lceil>steps\<rceil> \<le> i" by (simp add: ceiling_le_iff)
    then have "nat \<lceil>steps\<rceil> \<le> nat i" by (rule nat_mono)
    then have "[nat i ..< nat \<lceil>steps\<rceil>] = []" by (rule upt_conv_Nil)
    with False show ?thesis by (subst circle_loop.simps) simp
  qed
qed

text \<open>The ring of \<open>circle\<close> in closed form: the vertices of the rounds, then the
  closing entry \<open>coords[0]\<close>.\<close>

lemma ring_of_circle:
  "ring_of (circle c r steps) =
     (let vs = map (\<lambda>k. Some (loop_vertex (fst c) (snd c) r steps (int k))) [0 ..< nat \<lceil>steps\<rceil>]
      in vs @ [case vs of [] \<Rightarrow> None | v # _ \<Rightarrow> v])"
  using circle_loop_eq [of 0 "fst c" "snd c" r steps "[]"]
  by (simp add: ring_of_def circle_def Let_def)

lemma length_ring_of_circle: "length (ring_of (circle c r steps)) = nat \<lceil>steps\<rceil> + 1"
  by (simp add: ring_of_circle Let_def)

text \<open>Every vertex of the loop is at distance \<open>r\<close> from the center in the flat-earth
  metric, provided the divisor of the conversion to degrees is not zero.\<close>

lemma flat_earth_distance_loop_vertex:
  assumes "0 \<le> r" "cos (la * pi / 180) \<noteq> 0"
  shows "flat_earth_distance (lo, la) (loop_vertex lo la r steps i) = r"
proof -
  define t where "t = (of_int i / steps) * 2 * pi"
  define c where "c = cos (la * pi / 180)"
  define dLon where "dLon = r * cos t / (R * c) * 180 / pi"
  define dLat where "dLat = r * sin t / R * 180 / pi"
  have c: "c \<noteq> 0" using assms(2) by (simp add: c_def)
  have R: "R \<noteq> 0" by (simp add: R_def)
  have v: "loop_vertex lo la r steps i = (lo + dLon, la + dLat)"
    by (simp add: loop_vertex_def Let_def t_def c_def dLon_def dLat_def)
  have dx: "(lo + dLon - lo) * pi / 180 * (R * c) = r * cos t"
    using c R by (simp add: dLon_def)
  have dy: "(la + dLat - la) * pi / 180 * R = r * sin t"
    using R by (simp add: dLat_def)
  have "flat_earth_distance (lo, la) (loop_vertex lo la r steps i) =
        sqrt ((r * cos t) * (r * cos t) + (r * sin t) * (r * sin t))"
    unfolding v flat_earth_distance_def Let_def fst_conv snd_conv c_def [symmetric]
    by (simp only: dx dy)
  also have "(r * cos t) * (r * cos t) + (r * sin t) * (r * sin t) = r\<^sup>2 * ((sin t)\<^sup>2 + (cos t)\<^sup>2)"
    unfolding power2_eq_square by (simp only: algebra_simps)
  also have "\<dots> = r\<^sup>2" by (simp only: sin_cos_squared_add mult_1_right)
  finally show ?thesis using assms(1) by simp
qed

text \<open>When the loop runs at least once, the closing entry is the vertex of round 0.\<close>

lemma ring_of_circle_nonempty_steps:
  assumes "0 < steps"
  shows "ring_of (circle c r steps) =
     map (\<lambda>k. Some (loop_vertex (fst c) (snd c) r steps (int k))) [0 ..< nat \<lceil>steps\<rceil>]
       @ [Some (loop_vertex (fst c) (snd c) r steps 0)]"
proof -
  from assms have "0 < nat \<lceil>steps\<rceil>" by simp
  then have "[0 ..< nat \<lceil>steps\<rceil>] = 0 # [Suc 0 ..< nat \<lceil>steps\<rceil>]"
    by (rule upt_conv_Cons)
  then show ?thesis by (simp add: ring_of_circle Let_def)
qed

text \<open>With radius 0 every entry of the ring is the center itself.\<close>

lemma circle_zero_radius:
  assumes "0 < steps"
  shows "ring_of (circle c 0 steps) = replicate (nat \<lceil>steps\<rceil> + 1) (Some c)"
proof -
  have v: "loop_vertex (fst c) (snd c) 0 steps i = c" for i
    by (simp add: loop_vertex_def)
  show ?thesis
    by (simp add: ring_of_circle_nonempty_steps [OF assms] v map_replicate_const replicate_append_same)
qed

text \<open>
  The ring for a whole number \<open>s \<ge> 3\<close> of steps has \<open>s + 1\<close> entries, none of them
  \<open>undefined\<close>, and its first entry equals its last. In exact arithmetic, where the
  divisor \<open>R \<cdot> cos(lat \<cdot> \<pi>/180)\<close> of the loop is not zero, every non-closing vertex
  is at distance \<open>r\<close> from the center in the generator's own flat-earth metric. The
  code computes the vertices in doubles; how far rounding moves them from these is
  not stated here.
\<close>

lemma circle_ring_over_reals:
  assumes "3 \<le> s" "0 \<le> r"
  shows "length (ring_of (circle c r (of_int s))) = nat s + 1
       \<and> (\<forall>v \<in> set (ring_of (circle c r (of_int s))). v \<noteq> None)
       \<and> hd (ring_of (circle c r (of_int s))) = last (ring_of (circle c r (of_int s)))
       \<and> (0 < r \<and> cos (snd c * pi / 180) \<noteq> 0 \<longrightarrow>
            (\<forall>v \<in> set (butlast (ring_of (circle c r (of_int s)))).
               \<exists>p. v = Some p \<and> flat_earth_distance c p = r))"
proof -
  let ?vs = "map (\<lambda>k. Some (loop_vertex (fst c) (snd c) r (of_int s) (int k))) [0 ..< nat s]"
  from assms(1) have pos: "0 < (of_int s :: real)" by simp
  have ring: "ring_of (circle c r (of_int s)) = ?vs @ [Some (loop_vertex (fst c) (snd c) r (of_int s) 0)]"
    using ring_of_circle_nonempty_steps [OF pos, of c r] by simp
  from assms(1) have "[0 ..< nat s] = 0 # [Suc 0 ..< nat s]"
    by (intro upt_conv_Cons) simp
  then have hd: "hd ?vs = Some (loop_vertex (fst c) (snd c) r (of_int s) 0)" and ne: "?vs \<noteq> []"
    by simp_all
  have len: "length (ring_of (circle c r (of_int s))) = nat s + 1"
    by (simp add: ring)
  have some: "\<forall>v \<in> set (ring_of (circle c r (of_int s))). v \<noteq> None"
    by (auto simp: ring)
  have closed: "hd (ring_of (circle c r (of_int s))) = last (ring_of (circle c r (of_int s)))"
    using hd ne by (simp add: ring hd_append)
  have dist: "\<forall>v \<in> set (butlast (ring_of (circle c r (of_int s)))).
               \<exists>p. v = Some p \<and> flat_earth_distance c p = r"
    if pole: "cos (snd c * pi / 180) \<noteq> 0"
  proof
    fix v assume "v \<in> set (butlast (ring_of (circle c r (of_int s))))"
    then have "v \<in> set ?vs" by (simp add: ring butlast_append)
    then obtain k where "v = Some (loop_vertex (fst c) (snd c) r (of_int s) (int k))" by auto
    moreover have "flat_earth_distance c (loop_vertex (fst c) (snd c) r (of_int s) (int k)) = r"
      using flat_earth_distance_loop_vertex [OF assms(2) pole, of "fst c"] by simp
    ultimately show "\<exists>p. v = Some p \<and> flat_earth_distance c p = r" by blast
  qed
  from len some closed dist show ?thesis by blast
qed

text \<open>
  Claim C2, as stated, fails: \<open>circle\<close> has no check of \<open>steps\<close> and no
  \<open>throw\<close>. Called at the center \<open>(0, 0)\<close> with radius \<open>R\<close> and \<open>steps = 2\<close> it
  does not fail with \<open>InvalidArgument\<close>; it returns a ring of three entries.
\<close>

theorem circle_two_steps_returns:
  "circle_call (0, 0) 6378137 2 \<noteq> Inl InvalidArgument
   \<and> ring_of (circle (0, 0) 6378137 2) = [Some (180 / pi, 0), Some (- (180 / pi), 0), Some (180 / pi, 0)]"
proof -
  have "[0 ..< nat \<lceil>2::real\<rceil>] = [0, 1]" by (simp add: upt_rec)
  then show ?thesis
    by (simp add: circle_call_def ring_of_circle Let_def loop_vertex_def R_def)
qed

text \<open>
  Claim C2, amended. For every center and radius, a call of \<open>circle\<close> with
  \<open>steps < 3\<close> does not fail: it returns a ring with one entry for every round of the
  loop and the closing entry. For \<open>steps \<le> 0\<close> the loop runs no round and the ring is
  the single entry \<open>undefined\<close>; otherwise the first entry equals the last.
\<close>

theorem circle_small_steps:
  assumes "steps < 3"
  shows "circle_call c r steps = Inr (circle c r steps)
       \<and> length (ring_of (circle c r steps)) = nat \<lceil>steps\<rceil> + 1
       \<and> (if steps \<le> 0 then ring_of (circle c r steps) = [None]
           else hd (ring_of (circle c r steps)) = last (ring_of (circle c r steps)))"
proof -
  have call: "circle_call c r steps = Inr (circle c r steps)" by (simp add: circle_call_def)
  have shape: "if steps \<le> 0 then ring_of (circle c r steps) = [None]
           else hd (ring_of (circle c r steps)) = last (ring_of (circle c r steps))"
  proof (cases "steps \<le> 0")
    case True
    then have "\<lceil>steps\<rceil> \<le> 0" by (simp add: ceiling_le_iff)
    then have "[0 ..< nat \<lceil>steps\<rceil>] = []" by simp
    with True show ?thesis by (simp add: ring_of_circle)
  next
    case False
    then have pos: "0 < steps" by simp
    then have "0 < nat \<lceil>steps\<rceil>" by simp
    then have "[0 ..< nat \<lceil>steps\<rceil>] = 0 # [Suc 0 ..< nat \<lceil>steps\<rceil>]" by (rule upt_conv_Cons)
    with False show ?thesis
      by (simp add: ring_of_circle_nonempty_steps [OF pos])
  qed
  from call shape show ?thesis by (simp add: length_ring_of_circle)
qed

text \<open>The same for \<open>steps = 2\<close> and for \<open>steps = 0\<close>, at the center \<open>(0, 0)\<close> with
  radius 1000.\<close>

theorem circle_small_steps_witness:
  "(2::real) < 3 \<and> circle_call (0, 0) 1000 2 = Inr (circle (0, 0) 1000 2)
   \<and> length (ring_of (circle (0, 0) 1000 2)) = 3
   \<and> hd (ring_of (circle (0, 0) 1000 2)) = last (ring_of (circle (0, 0) 1000 2))
   \<and> (0::real) < 3 \<and> circle_call (0, 0) 1000 0 = Inr (circle (0, 0) 1000 0)
   \<and> ring_of (circle (0, 0) 1000 0) = [None]"
  using circle_small_steps [of 2 "(0, 0)" 1000] circle_small_steps [of 0 "(0, 0)" 1000]
  by simp

text \<open>
  Claim C8, as stated, fails: \<open>circle\<close> takes no threshold and has nothing to flag a
  call with. At latitude 89, beyond a threshold of 85, the call returns a feature with
  empty \<open>properties\<close> like any other.
\<close>

theorem circle_high_latitude_not_flagged:
  "(85::real) < \<bar>snd (0::real, 89::real)\<bar> \<and> \<not> flagged (circle_call (0, 89) 1000 128)"
  by (simp add: flagged_def circle_call_def circle_def Let_def)

text \<open>
  Claim C8, amended. \<open>circle\<close> never flags a call, whatever the latitude of the
  center: every call returns its feature, and the ring holds the vertices of the
  equirectangular formula, uncorrected, followed by the closing entry.
\<close>

theorem circle_never_flags:
  "\<not> flagged (circle_call c r steps)
   \<and> circle_call c r steps = Inr (circle c r steps)
   \<and> ring_of (circle c r steps) =
       (let vs = map (\<lambda>k. Some (loop_vertex (fst c) (snd c) r steps (int k))) [0 ..< nat \<lceil>steps\<rceil>]
        in vs @ [case vs of [] \<Rightarrow> None | v # _ \<Rightarrow> v])"
  by (simp add: flagged_def circle_call_def ring_of_circle) (simp add: circle_def Let_def)

section \<open>Properties of the overlay layers\<close>

text \<open>
  Claim C7. Without a simulation result there are no layers. With a result there are
  exactly two layers, \<open>op-1psi\<close> and \<open>op-5psi\<close>, each holding the one feature that
  \<open>circle\<close> returns for the center of the result and the radius stored under
  \<open>'1psi'\<close> and \<open>'5psi'\<close>, so the layers draw exactly these two rings.
\<close>

theorem layers_two_rings:
  "(case sim st of
      None \<Rightarrow> layers st = []
    | Some s \<Rightarrow>
        map layer_id (layers st) = [''op-1psi'', ''op-5psi'']
        \<and> map (\<lambda>l. features (data l)) (layers st) =
            [[circle (lon (SimulationResult.center s), lat (SimulationResult.center s))
                (psi_1 (overpressure_radii_m s)) default_steps],
             [circle (lon (SimulationResult.center s), lat (SimulationResult.center s))
                (psi_5 (overpressure_radii_m s)) default_steps]]
        \<and> layer_rings (layers st) =
            [ring_of (circle (lon (SimulationResult.center s), lat (SimulationResult.center s))
                (psi_1 (overpressure_radii_m s)) default_steps),
             ring_of (circle (lon (SimulationResult.center s), lat (SimulationResult.center s))
                (psi_5 (overpressure_radii_m s)) default_steps)])"
  by (simp add: layers_def layer_rings_def Let_def split: option.split)

text \<open>For the sample result the two rings have 129 entries each.\<close>

lemma layers_sample_lengths:
  "layers initial_state = [] \<and> map length (layer_rings (layers state_with_result)) = [129, 129]"
  by (simp add: layers_def layer_rings_def Let_def state_with_result_def initial_state_def
      length_ring_of_circle default_steps_def)

text \<open>
  Claim C9. The layers are a function of the cell \<open>sim\<close> alone: two states with
  equal simulation results have the same layers and draw the same rings, whatever
  their view states are.
\<close>

theorem layers_depend_on_sim_only:
  assumes "sim st1 = sim st2"
  shows "layers st1 = layers st2 \<and> layer_rings (layers st1) = layer_rings (layers st2)"
  using assms by (simp add: layers_def)

text \<open>Two states with the sample result and different camera poses.\<close>

theorem layers_depend_on_sim_only_witness:
  "sim state_with_result =
     sim (setViewState \<lparr>longitude = 2, latitude = 48, zoom = 3, bearing = 90, pitch = 45\<rparr> state_with_result)
   \<and> viewState state_with_result \<noteq>
     viewState (setViewState \<lparr>longitude = 2, latitude = 48, zoom = 3, bearing = 90, pitch = 45\<rparr> state_with_result)
   \<and> layer_rings (layers state_with_result) =
     layer_rings (layers (setViewState \<lparr>longitude = 2, latitude = 48, zoom = 3, bearing = 90, pitch = 45\<rparr> state_with_result))"
proof -
  let ?st = "setViewState \<lparr>longitude = 2, latitude = 48, zoom = 3, bearing = 90, pitch = 45\<rparr> state_with_result"
  have h: "sim state_with_result = sim ?st" by (simp add: setViewState_def)
  have "viewState state_with_result \<noteq> viewState ?st"
    by (simp add: setViewState_def state_with_result_def initial_state_def)
  with h layers_depend_on_sim_only [OF h] show ?thesis by simp
qed

section \<open>Properties of the request pipelines\<close>







text \<open>While a request is loading the run button is disabled: a click then issues no
  second request.\<close>

lemma click_run_while_loading: "click_run (fst (runSim_start st)) = (fst (runSim_start st), None)"
  by (simp add: click_run_def run_disabled_def runSim_start_def)

text \<open>
  Claim C4. Called in status \<open>Idle\<close> or \<open>Error\<close>, \<open>runSim\<close> sets the status to
  \<open>Loading\<close> before its \<open>await\<close>. When the request is fulfilled the status goes from
  \<open>Loading\<close> to \<open>Idle\<close> and the result is stored; when it is rejected the status
  goes from \<open>Loading\<close> to \<open>Error\<close> and a message is stored. The continuation sets
  these in whatever state the component is when the response arrives.
\<close>

theorem runSim_status_sequence:
  assumes "simStatus st = Idle \<or> simStatus st = Error"
  shows "simStatus (fst (runSim_start st)) = Loading
       \<and> map simStatus (runSim_states st (Fulfilled d)) = [simStatus st, Loading, Idle]
       \<and> sim (runSim st (Fulfilled d)) = Some d
       \<and> map simStatus (runSim_states st (Rejected e)) = [simStatus st, Loading, Error]
       \<and> (\<exists>m. simError (runSim st (Rejected e)) = Some m)
       \<and> simStatus (runSim_settle (Fulfilled d) st') = Idle
       \<and> sim (runSim_settle (Fulfilled d) st') = Some d
       \<and> simStatus (runSim_settle (Rejected e) st') = Error
       \<and> (\<exists>m. simError (runSim_settle (Rejected e) st') = Some m)"
  by (simp add: runSim_def runSim_states_def runSim_start_def runSim_settle_def)

text \<open>The same from the initial state, with the sample result and with a rejection
  that is not an \<open>Error\<close> object.\<close>

theorem runSim_status_sequence_witness:
  "(simStatus initial_state = Idle \<or> simStatus initial_state = Error)
   \<and> simStatus (fst (runSim_start initial_state)) = Loading
   \<and> map simStatus (runSim_states initial_state (Fulfilled result_A)) = [Idle, Loading, Idle]
   \<and> sim (runSim initial_state (Fulfilled result_A)) = Some result_A
   \<and> map simStatus (runSim_states initial_state (Rejected NotAnError)) = [Idle, Loading, Error]
   \<and> simError (runSim initial_state (Rejected NotAnError)) = Some ''Simulation failed.''"
proof -
  have h: "simStatus initial_state = Idle \<or> simStatus initial_state = Error"
    by (simp add: initial_state_def)
  have i: "simStatus initial_state = Idle" by (simp add: initial_state_def)
  have m: "simError (runSim initial_state (Rejected NotAnError)) = Some ''Simulation failed.''"
    by (simp add: runSim_def runSim_states_def runSim_settle_def)
  from runSim_status_sequence [OF h, of result_A NotAnError] h i m show ?thesis by simp
qed

text \<open>
  Claim C5. A rejected simulation request changes the status to \<open>Error\<close> and stores
  a message, and nothing else: the stored result is the one from before. A rejected
  candidate search does the same to its own status and message and leaves the
  candidate list as it was.
\<close>

theorem failed_request_keeps_data:
  "runSim st (Rejected e) =
     st\<lparr>simStatus := Error,
        simError := Some (case e of ErrorObject m \<Rightarrow> m | NotAnError \<Rightarrow> ''Simulation failed.'')\<rparr>
   \<and> sim (runSim_settle (Rejected e) st) = sim st
   \<and> simStatus (runSim_settle (Rejected e) st) = Error
   \<and> simError (runSim_settle (Rejected e) st) \<noteq> None
   \<and> refresh st (Rejected e) =
     st\<lparr>phaStatus := Error,
        phaError := Some (case e of ErrorObject m \<Rightarrow> m | NotAnError \<Rightarrow> ''Search failed.'')\<rparr>
   \<and> phaResults (refresh_settle (Rejected e) st) = phaResults st
   \<and> phaStatus (refresh_settle (Rejected e) st) = Error
   \<and> phaError (refresh_settle (Rejected e) st) \<noteq> None"
  by (simp add: runSim_def runSim_states_def runSim_start_def runSim_settle_def
      refresh_def refresh_start_def refresh_settle_def)

text \<open>
  Claim C6, as stated, fails: \<open>runSim\<close> does not touch \<open>sim\<close> before its \<open>await\<close>.
  Started in a state that holds the sample result, the pipeline enters \<open>Loading\<close>
  with that result still stored.
\<close>

theorem runSim_start_retains_result:
  "simStatus (fst (runSim_start state_with_result)) = Loading
   \<and> sim (fst (runSim_start state_with_result)) = Some result_A"
  by (simp add: runSim_start_def state_with_result_def)

text \<open>
  Claim C6, amended. Starting a simulation request leaves the stored result as it is.
  The result is replaced whole, not merged, when a request is fulfilled, and only
  then: a rejected request leaves it as it is, too.
\<close>

theorem runSim_replaces_result_on_success_only:
  "sim (fst (runSim_start st)) = sim st
   \<and> sim (runSim_settle (Fulfilled d) st) = Some d
   \<and> sim (runSim_settle (Rejected e) st) = sim st
   \<and> sim (runSim st (Fulfilled d)) = Some d
   \<and> sim (runSim st (Rejected e)) = sim st"
  by (simp add: runSim_def runSim_states_def runSim_start_def runSim_settle_def)

text \<open>
  Claim C10. Starting a simulation request or a candidate search sets that pipeline's
  error message to \<open>null\<close> together with the status \<open>Loading\<close>, so no error line is
  shown for it at that moment.
\<close>

theorem request_start_clears_error:
  "simStatus (fst (runSim_start st)) = Loading
   \<and> simError (fst (runSim_start st)) = None
   \<and> sim_error_shown (fst (runSim_start st)) = None
   \<and> phaStatus (fst (refresh_start st)) = Loading
   \<and> phaError (fst (refresh_start st)) = None
   \<and> pha_error_shown (fst (refresh_start st)) = None"
  by (simp add: runSim_start_def refresh_start_def sim_error_shown_def pha_error_shown_def)

end
